theory Spec2Isabelle
  imports Complex_Main
begin

section \<open>Data model\<close>

text \<open>
  The canvas map component \<^verbatim>\<open>EarthquakeMap\<close> (src/components/EarthquakeMap.tsx) and the
  two visualisation helpers of src/services/earthquakeService.ts. JavaScript numbers are
  modelled as real numbers: rounding of IEEE doubles is not modelled, and the one place where
  a value can be \<^verbatim>\<open>undefined\<close>/\<^verbatim>\<open>NaN\<close> (an entry read past the end of a
  coordinates array) is modelled by \<open>real option\<close>, \<open>None\<close> standing for \<^verbatim>\<open>NaN\<close>.
\<close>

datatype error = TypeError

text \<open>An object \<^verbatim>\<open>{ x, y }\<close>: the pan offset and the drag start.\<close>

record point =
  px :: real
  py :: real

text \<open>\<^verbatim>\<open>searchCoordinates: { lat: number; lng: number } | null\<close>\<close>

record latlng =
  lat :: real
  lng :: real

text \<open>
  An earthquake feature as the component reads it: \<^verbatim>\<open>quake.id\<close>,
  \<^verbatim>\<open>quake.properties.mag\<close> and \<^verbatim>\<open>quake.geometry.coordinates\<close>. The features
  come from \<^verbatim>\<open>response.json()\<close> unchecked, so the coordinates may be absent at run time
  (\<open>None\<close>) or an array with fewer than two entries.
\<close>

record properties =
  mag :: real

record geometry =
  coordinates :: "real list option"

record Earthquake =
  quake_id :: string
  properties :: properties
  geometry :: geometry

text \<open>
  The canvas element behind \<^verbatim>\<open>canvasRef\<close>: its drawing-buffer size and the origin of
  \<^verbatim>\<open>getBoundingClientRect()\<close>.
\<close>

record canvas =
  width :: real
  height :: real
  rect_left :: real
  rect_top :: real

text \<open>The four \<^verbatim>\<open>useState\<close> cells of the component.\<close>

record state =
  zoom :: real
  pan :: point
  isDragging :: bool
  dragStart :: point

definition initial :: state where
  "initial = \<lparr>zoom = 1, pan = \<lparr>px = 0, py = 0\<rparr>, isDragging = False,
     dragStart = \<lparr>px = 0, py = 0\<rparr>\<rparr>"

section \<open>earthquakeService: marker colour and size\<close>

definition getMagnitudeColor :: "real \<Rightarrow> string" where
  "getMagnitudeColor magnitude =
     (if magnitude \<ge> 7 then ''#dc2626''
      else if magnitude \<ge> 6 then ''#ea580c''
      else if magnitude \<ge> 5 then ''#f59e0b''
      else if magnitude \<ge> 4 then ''#eab308''
      else if magnitude \<ge> 3 then ''#84cc16''
      else ''#22c55e'')"

definition getMagnitudeSize :: "real \<Rightarrow> real" where
  "getMagnitudeSize magnitude =
     (if magnitude \<ge> 7 then 24
      else if magnitude \<ge> 6 then 20
      else if magnitude \<ge> 5 then 16
      else if magnitude \<ge> 4 then 12
      else if magnitude \<ge> 3 then 10
      else 8)"

text \<open>
  The colour ramp in the order the specification names it (green, lime, yellow, amber,
  orange, red), with the hex codes the source's comments attach to those names; \<open>colorRank\<close>
  is the position of a colour on the ramp.
\<close>

definition colorRamp :: "string list" where
  "colorRamp = [''#22c55e'', ''#84cc16'', ''#eab308'', ''#f59e0b'', ''#ea580c'', ''#dc2626'']"

fun index_of :: "'a \<Rightarrow> 'a list \<Rightarrow> nat" where
  "index_of a [] = 0"
| "index_of a (b # bs) = (if a = b then 0 else Suc (index_of a bs))"

definition colorRank :: "string \<Rightarrow> nat" where
  "colorRank c = index_of c colorRamp"

section \<open>Viewport transform\<close>

text \<open>
  \<^verbatim>\<open>ctx.translate(pan.x, pan.y); ctx.scale(zoom, zoom)\<close> in \<^verbatim>\<open>drawMap\<close>: a point drawn
  at plane coordinates \<open>p\<close> appears at device coordinates \<open>p * zoom + pan\<close>.
\<close>

definition toDevice :: "state \<Rightarrow> point \<Rightarrow> point" where
  "toDevice st p = \<lparr>px = px p * zoom st + px (pan st), py = py p * zoom st + py (pan st)\<rparr>"

text \<open>
  \<^verbatim>\<open>handleClick\<close>: \<^verbatim>\<open>clickX = (e.clientX - rect.left - pan.x) / zoom\<close>, where
  \<^verbatim>\<open>e.clientX - rect.left\<close> is the device (canvas-relative) coordinate.
\<close>

definition toPlane :: "state \<Rightarrow> point \<Rightarrow> point" where
  "toPlane st d = \<lparr>px = (px d - px (pan st)) / zoom st, py = (py d - py (pan st)) / zoom st\<rparr>"

text \<open>The equirectangular projection written out in the draw loop and in the hit loop.\<close>

definition projectX :: "canvas \<Rightarrow> real \<Rightarrow> real" where
  "projectX cv lng' = ((lng' + 180) / 360) * width cv"

definition projectY :: "canvas \<Rightarrow> real \<Rightarrow> real" where
  "projectY cv lat' = ((90 - lat') / 180) * height cv"

section \<open>Event handlers\<close>

text \<open>\<^verbatim>\<open>handleWheel\<close>, lines 31-35.\<close>

definition handleWheel :: "real \<Rightarrow> state \<Rightarrow> state" where
  "handleWheel deltaY st =
     (let delta = (if deltaY > 0 then 0.9 else 1.1)
      in st\<lparr>zoom := max 0.5 (min 5 (zoom st * delta))\<rparr>)"

text \<open>The effect on \<^verbatim>\<open>[searchCoordinates]\<close>, lines 44-61.\<close>

definition centerOnSearch :: "canvas option \<Rightarrow> latlng option \<Rightarrow> state \<Rightarrow> state" where
  "centerOnSearch canvasRef searchCoordinates st =
     (case searchCoordinates of
        None \<Rightarrow> st
      | Some sc \<Rightarrow>
          (case canvasRef of
             None \<Rightarrow> st
           | Some cv \<Rightarrow>
               (let centerX = width cv / 2;
                    centerY = height cv / 2;
                    x = projectX cv (lng sc);
                    y = projectY cv (lat sc)
                in st\<lparr>pan := \<lparr>px = centerX - x * 2, py = centerY - y * 2\<rparr>, zoom := 2\<rparr>)))"

text \<open>\<^verbatim>\<open>handleMouseDown\<close>, \<^verbatim>\<open>handleMouseMove\<close>, \<^verbatim>\<open>handleMouseUp\<close>, lines 200-216.\<close>

definition handleMouseDown :: "real \<Rightarrow> real \<Rightarrow> state \<Rightarrow> state" where
  "handleMouseDown clientX clientY st =
     st\<lparr>isDragging := True,
        dragStart := \<lparr>px = clientX - px (pan st), py = clientY - py (pan st)\<rparr>\<rparr>"

definition handleMouseMove :: "real \<Rightarrow> real \<Rightarrow> state \<Rightarrow> state" where
  "handleMouseMove clientX clientY st =
     (if isDragging st
      then st\<lparr>pan := \<lparr>px = clientX - px (dragStart st), py = clientY - py (dragStart st)\<rparr>\<rparr>
      else st)"

definition handleMouseUp :: "state \<Rightarrow> state" where
  "handleMouseUp st = st\<lparr>isDragging := False\<rparr>"

subsection \<open>Reading a marker's coordinates\<close>

text \<open>
  \<^verbatim>\<open>const [lng, lat] = quake.geometry.coordinates\<close>: destructuring \<^verbatim>\<open>undefined\<close>
  throws a TypeError; an array that is too short leaves the variable \<^verbatim>\<open>undefined\<close>,
  which the arithmetic that follows turns into \<^verbatim>\<open>NaN\<close>.
\<close>

fun entry :: "real list \<Rightarrow> nat \<Rightarrow> real option" where
  "entry [] n = None"
| "entry (c # cs) 0 = Some c"
| "entry (c # cs) (Suc n) = entry cs n"

definition lngLat :: "Earthquake \<Rightarrow> error + (real option \<times> real option)" where
  "lngLat quake =
     (case coordinates (geometry quake) of
        None \<Rightarrow> Inl TypeError
      | Some cs \<Rightarrow> Inr (entry cs 0, entry cs 1))"

subsection \<open>Click hit-testing\<close>

text \<open>
  \<^verbatim>\<open>Math.sqrt(Math.pow(clickX - x, 2) + Math.pow(clickY - y, 2))\<close>, \<^verbatim>\<open>NaN\<close> as soon as
  \<open>x\<close> or \<open>y\<close> is.
\<close>

definition distance :: "real \<Rightarrow> real \<Rightarrow> real option \<Rightarrow> real option \<Rightarrow> real option" where
  "distance clickX clickY x y =
     (case x of
        None \<Rightarrow> None
      | Some x' \<Rightarrow>
          (case y of
             None \<Rightarrow> None
           | Some y' \<Rightarrow> Some (sqrt ((clickX - x') ^ 2 + (clickY - y') ^ 2))))"

text \<open>\<^verbatim>\<open>distance <= size\<close>: a comparison with \<^verbatim>\<open>NaN\<close> is false.\<close>

definition withinSize :: "real option \<Rightarrow> real \<Rightarrow> bool" where
  "withinSize d size' = (case d of None \<Rightarrow> False | Some d' \<Rightarrow> d' \<le> size')"

text \<open>The body of the \<^verbatim>\<open>for (const quake of earthquakes)\<close> loop up to the test.\<close>

definition hits :: "canvas \<Rightarrow> real \<Rightarrow> real \<Rightarrow> Earthquake \<Rightarrow> error + bool" where
  "hits cv clickX clickY quake =
     (case lngLat quake of
        Inl e \<Rightarrow> Inl e
      | Inr (lng', lat') \<Rightarrow>
          (let x = map_option (projectX cv) lng';
               y = map_option (projectY cv) lat';
               d = distance clickX clickY x y;
               size' = getMagnitudeSize (mag (properties quake))
           in Inr (withinSize d size')))"

text \<open>
  The loop: the first marker that passes the test is handed to \<^verbatim>\<open>onSelectEarthquake\<close>
  and the handler returns; an exception leaves the loop at once.
\<close>

fun hitLoop :: "canvas \<Rightarrow> real \<Rightarrow> real \<Rightarrow> Earthquake list \<Rightarrow> error + Earthquake option" where
  "hitLoop cv clickX clickY [] = Inr None"
| "hitLoop cv clickX clickY (quake # rest) =
     (case hits cv clickX clickY quake of
        Inl e \<Rightarrow> Inl e
      | Inr True \<Rightarrow> Inr (Some quake)
      | Inr False \<Rightarrow> hitLoop cv clickX clickY rest)"

text \<open>
  \<^verbatim>\<open>handleClick\<close>, lines 218-241. The result is the argument of the call of
  \<^verbatim>\<open>onSelectEarthquake\<close>, \<open>Inr None\<close> when the callback is not called.
\<close>

definition handleClick ::
  "canvas option \<Rightarrow> Earthquake list \<Rightarrow> state \<Rightarrow> real \<Rightarrow> real \<Rightarrow> error + Earthquake option" where
  "handleClick canvasRef earthquakes st clientX clientY =
     (if isDragging st then Inr None
      else
        (case canvasRef of
           None \<Rightarrow> Inr None
         | Some cv \<Rightarrow>
             (let click = toPlane st \<lparr>px = clientX - rect_left cv, py = clientY - rect_top cv\<rparr>
              in hitLoop cv (px click) (py click) earthquakes)))"

subsection \<open>The marker loop of the render pass\<close>

text \<open>
  What \<^verbatim>\<open>drawMap\<close> issues for one marker (lines 88-110): the arguments of
  \<^verbatim>\<open>ctx.arc\<close>, the fill style, the opacity and whether the white outline is stroked.
\<close>

record arc =
  arc_x :: "real option"
  arc_y :: "real option"
  arc_radius :: real
  fillStyle :: string
  globalAlpha :: real
  stroked :: bool

text \<open>\<^verbatim>\<open>selectedEarthquake?.id === quake.id\<close>\<close>

definition isSelected :: "Earthquake option \<Rightarrow> Earthquake \<Rightarrow> bool" where
  "isSelected selectedEarthquake quake =
     (case selectedEarthquake of None \<Rightarrow> False | Some s \<Rightarrow> quake_id s = quake_id quake)"

definition drawMarker :: "canvas \<Rightarrow> state \<Rightarrow> Earthquake option \<Rightarrow> Earthquake \<Rightarrow> error + arc" where
  "drawMarker cv st selectedEarthquake quake =
     (case lngLat quake of
        Inl e \<Rightarrow> Inl e
      | Inr (lng', lat') \<Rightarrow>
          Inr \<lparr>arc_x = map_option (projectX cv) lng',
               arc_y = map_option (projectY cv) lat',
               arc_radius = getMagnitudeSize (mag (properties quake)) / zoom st,
               fillStyle = getMagnitudeColor (mag (properties quake)),
               globalAlpha = (if isSelected selectedEarthquake quake then 1 else 0.7),
               stroked = isSelected selectedEarthquake quake\<rparr>)"

text \<open>
  \<^verbatim>\<open>earthquakes.forEach(...)\<close>: the arcs issued, in order, and the exception that ended
  the loop, if any. What was drawn before an exception stays on the canvas.
\<close>

fun drawMarkers ::
  "canvas \<Rightarrow> state \<Rightarrow> Earthquake option \<Rightarrow> Earthquake list \<Rightarrow> arc list \<times> error option" where
  "drawMarkers cv st sel [] = ([], None)"
| "drawMarkers cv st sel (quake # rest) =
     (case drawMarker cv st sel quake of
        Inl e \<Rightarrow> ([], Some e)
      | Inr a \<Rightarrow> (a # fst (drawMarkers cv st sel rest), snd (drawMarkers cv st sel rest)))"

subsection \<open>Resizing the canvas buffer\<close>

text \<open>
  \<^verbatim>\<open>resizeCanvas\<close>, lines 71-75, run by the draw effect before every \<^verbatim>\<open>drawMap\<close>:
  \<^verbatim>\<open>canvas.width = canvas.offsetWidth; canvas.height = canvas.offsetHeight\<close>. The laid-out
  size is given by the page. Until the draw effect has run once, the buffer of a canvas
  element has the default size 300 x 150; the effect on \<^verbatim>\<open>[searchCoordinates]\<close> is
  declared before the draw effect, so on mount it reads that default size.
\<close>

definition resizeCanvas :: "real \<Rightarrow> real \<Rightarrow> canvas \<Rightarrow> canvas" where
  "resizeCanvas offsetWidth offsetHeight cv = cv\<lparr>width := offsetWidth, height := offsetHeight\<rparr>"

section \<open>The component as a state machine\<close>

text \<open>
  The events the component reacts to: the wheel listener, a new value of the
  \<^verbatim>\<open>searchCoordinates\<close> prop, and the five mouse handlers of the canvas element
  (\<^verbatim>\<open>onMouseLeave\<close> is bound to \<^verbatim>\<open>handleMouseUp\<close>).
\<close>

datatype event =
    Wheel real
  | Search "latlng option"
  | MouseDown real real
  | MouseMove real real
  | MouseUp
  | MouseLeave
  | Click real real

text \<open>
  One event: the next state and what the event reported through
  \<^verbatim>\<open>onSelectEarthquake\<close> (only a click can report).
\<close>

fun step ::
  "canvas option \<Rightarrow> Earthquake list \<Rightarrow> state \<Rightarrow> event \<Rightarrow> state \<times> (error + Earthquake option)" where
  "step canvasRef earthquakes st (Wheel deltaY) = (handleWheel deltaY st, Inr None)"
| "step canvasRef earthquakes st (Search sc) = (centerOnSearch canvasRef sc st, Inr None)"
| "step canvasRef earthquakes st (MouseDown x y) = (handleMouseDown x y st, Inr None)"
| "step canvasRef earthquakes st (MouseMove x y) = (handleMouseMove x y st, Inr None)"
| "step canvasRef earthquakes st MouseUp = (handleMouseUp st, Inr None)"
| "step canvasRef earthquakes st MouseLeave = (handleMouseUp st, Inr None)"
| "step canvasRef earthquakes st (Click x y) = (st, handleClick canvasRef earthquakes st x y)"

fun run ::
  "canvas option \<Rightarrow> Earthquake list \<Rightarrow> state \<Rightarrow> event list \<Rightarrow>
     state \<times> (error + Earthquake option) list" where
  "run canvasRef earthquakes st [] = (st, [])"
| "run canvasRef earthquakes st (e # es) =
     (fst (run canvasRef earthquakes (fst (step canvasRef earthquakes st e)) es),
      snd (step canvasRef earthquakes st e)
        # snd (run canvasRef earthquakes (fst (step canvasRef earthquakes st e)) es))"

text \<open>A pointer path as the \<^verbatim>\<open>mousemove\<close> events it produces.\<close>

definition moves :: "point list \<Rightarrow> event list" where
  "moves ps = map (\<lambda>p. MouseMove (px p) (py p)) ps"

section \<open>Magnitude buckets\<close>

lemma colorRank_values:
  "colorRank ''#22c55e'' = 0" "colorRank ''#84cc16'' = 1" "colorRank ''#eab308'' = 2"
  "colorRank ''#f59e0b'' = 3" "colorRank ''#ea580c'' = 4" "colorRank ''#dc2626'' = 5"
  by (simp_all add: colorRank_def colorRamp_def)

lemma getMagnitudeSize_mono: "m \<le> m' \<Longrightarrow> getMagnitudeSize m \<le> getMagnitudeSize m'"
  by (simp add: getMagnitudeSize_def)

lemma getMagnitudeColor_mono:
  "m \<le> m' \<Longrightarrow> colorRank (getMagnitudeColor m) \<le> colorRank (getMagnitudeColor m')"
  by (simp add: getMagnitudeColor_def colorRank_values)


text \<open>
  C9. Radius and colour are step functions of the magnitude over the buckets
  \<open><3\<close>, \<open>[3,4)\<close>, \<open>[4,5)\<close>, \<open>[5,6)\<close>, \<open>[6,7)\<close>, \<open>\<ge>7\<close> with radii 8, 10, 12, 16, 20, 24 and the
  colours green, lime, yellow, amber, orange, red; both are monotonic in the magnitude
  (the colour along the ramp); magnitude 6.5 gets radius 20 and colour \<open>#ea580c\<close>.
\<close>

theorem magnitude_bucketing:
  "(m < 3 \<longrightarrow> getMagnitudeSize m = 8 \<and> getMagnitudeColor m = ''#22c55e'') \<and>
   (3 \<le> m \<and> m < 4 \<longrightarrow> getMagnitudeSize m = 10 \<and> getMagnitudeColor m = ''#84cc16'') \<and>
   (4 \<le> m \<and> m < 5 \<longrightarrow> getMagnitudeSize m = 12 \<and> getMagnitudeColor m = ''#eab308'') \<and>
   (5 \<le> m \<and> m < 6 \<longrightarrow> getMagnitudeSize m = 16 \<and> getMagnitudeColor m = ''#f59e0b'') \<and>
   (6 \<le> m \<and> m < 7 \<longrightarrow> getMagnitudeSize m = 20 \<and> getMagnitudeColor m = ''#ea580c'') \<and>
   (7 \<le> m \<longrightarrow> getMagnitudeSize m = 24 \<and> getMagnitudeColor m = ''#dc2626'') \<and>
   (m \<le> m' \<longrightarrow> getMagnitudeSize m \<le> getMagnitudeSize m' \<and>
      colorRank (getMagnitudeColor m) \<le> colorRank (getMagnitudeColor m')) \<and>
   colorRank ''#22c55e'' < colorRank ''#84cc16'' \<and>
   colorRank ''#84cc16'' < colorRank ''#eab308'' \<and>
   colorRank ''#eab308'' < colorRank ''#f59e0b'' \<and>
   colorRank ''#f59e0b'' < colorRank ''#ea580c'' \<and>
   colorRank ''#ea580c'' < colorRank ''#dc2626'' \<and>
   getMagnitudeSize 6.5 = 20 \<and> getMagnitudeColor 6.5 = ''#ea580c''"
proof -
  have buckets:
    "m < 3 \<longrightarrow> getMagnitudeSize m = 8 \<and> getMagnitudeColor m = ''#22c55e''"
    "3 \<le> m \<and> m < 4 \<longrightarrow> getMagnitudeSize m = 10 \<and> getMagnitudeColor m = ''#84cc16''"
    "4 \<le> m \<and> m < 5 \<longrightarrow> getMagnitudeSize m = 12 \<and> getMagnitudeColor m = ''#eab308''"
    "5 \<le> m \<and> m < 6 \<longrightarrow> getMagnitudeSize m = 16 \<and> getMagnitudeColor m = ''#f59e0b''"
    "6 \<le> m \<and> m < 7 \<longrightarrow> getMagnitudeSize m = 20 \<and> getMagnitudeColor m = ''#ea580c''"
    "7 \<le> m \<longrightarrow> getMagnitudeSize m = 24 \<and> getMagnitudeColor m = ''#dc2626''"
    by (simp_all add: getMagnitudeSize_def getMagnitudeColor_def)
  have mono:
    "m \<le> m' \<longrightarrow> getMagnitudeSize m \<le> getMagnitudeSize m' \<and>
       colorRank (getMagnitudeColor m) \<le> colorRank (getMagnitudeColor m')"
    using getMagnitudeSize_mono getMagnitudeColor_mono by blast
  have ramp:
    "colorRank ''#22c55e'' < colorRank ''#84cc16''"
    "colorRank ''#84cc16'' < colorRank ''#eab308''"
    "colorRank ''#eab308'' < colorRank ''#f59e0b''"
    "colorRank ''#f59e0b'' < colorRank ''#ea580c''"
    "colorRank ''#ea580c'' < colorRank ''#dc2626''"
    by (simp_all add: colorRank_values)
  have at65: "getMagnitudeSize 6.5 = 20" "getMagnitudeColor 6.5 = ''#ea580c''"
    by (simp_all add: getMagnitudeSize_def getMagnitudeColor_def)
  from buckets mono ramp at65 show ?thesis by blast
qed

theorem magnitude_bucketing_witness:
  "(6::real) \<le> 6.5 \<and> (6.5::real) < 7 \<and> (6.5::real) \<le> 7.2 \<and>
   getMagnitudeSize 6.5 = 20 \<and> getMagnitudeColor 6.5 = ''#ea580c'' \<and>
   getMagnitudeSize 6.5 \<le> getMagnitudeSize 7.2 \<and>
   colorRank (getMagnitudeColor 6.5) \<le> colorRank (getMagnitudeColor 7.2)"
  using magnitude_bucketing [of "6.5" "7.2"]
  by (simp add: getMagnitudeSize_def getMagnitudeColor_def colorRank_values)

section \<open>Viewport transform laws\<close>

text \<open>
  C8. For a viewport with positive zoom, converting a device point to plane coordinates
  (subtract the pan, divide by the zoom) and back (multiply by the zoom, add the pan)
  returns the device point.
\<close>

theorem toDevice_toPlane:
  "0 < zoom st \<Longrightarrow> toDevice st (toPlane st d) = d"
  by (simp add: toDevice_def toPlane_def)

theorem toDevice_toPlane_witness:
  "0 < zoom (initial\<lparr>zoom := 2, pan := \<lparr>px = 10, py = 20\<rparr>\<rparr>) \<and>
   toDevice (initial\<lparr>zoom := 2, pan := \<lparr>px = 10, py = 20\<rparr>\<rparr>)
     (toPlane (initial\<lparr>zoom := 2, pan := \<lparr>px = 10, py = 20\<rparr>\<rparr>) \<lparr>px = 30, py = 50\<rparr>)
   = \<lparr>px = 30, py = 50\<rparr>"
  using toDevice_toPlane [of "initial\<lparr>zoom := 2, pan := \<lparr>px = 10, py = 20\<rparr>\<rparr>" "\<lparr>px = 30, py = 50\<rparr>"]
  by (simp add: initial_def)

section \<open>Wheel zoom\<close>

text \<open>
  C10. A wheel event changes the zoom only: the pan (and the drag bookkeeping) after the
  event are those before it.
\<close>

theorem handleWheel_frame:
  "pan (handleWheel deltaY st) = pan st \<and>
   isDragging (handleWheel deltaY st) = isDragging st \<and>
   dragStart (handleWheel deltaY st) = dragStart st"
  by (simp add: handleWheel_def Let_def)

text \<open>
  C1. With the zoom in \<open>[0.5, 5]\<close>, a wheel event multiplies the zoom by 0.9 when
  \<open>deltaY > 0\<close> and by 1.1 otherwise, clamps it to \<open>[0.5, 5]\<close> and leaves the pan as it is.
  The plane point under a device pivot \<open>p\<close> is therefore scaled about the pan offset by
  \<open>zoom before / zoom after\<close>; it stays the same exactly when the zoom did not change (it
  was clamped at a bound) or \<open>p\<close> is the device point \<open>(panX, panY)\<close>.
\<close>

theorem wheel_zoom_scales_about_pan:
  assumes "0.5 \<le> zoom st" "zoom st \<le> 5"
  shows "zoom (handleWheel deltaY st) =
           max 0.5 (min 5 (zoom st * (if deltaY > 0 then 0.9 else 1.1))) \<and>
         pan (handleWheel deltaY st) = pan st \<and>
         px (toPlane (handleWheel deltaY st) p) =
           px (toPlane st p) * (zoom st / zoom (handleWheel deltaY st)) \<and>
         py (toPlane (handleWheel deltaY st) p) =
           py (toPlane st p) * (zoom st / zoom (handleWheel deltaY st)) \<and>
         (toPlane (handleWheel deltaY st) p = toPlane st p \<longleftrightarrow>
            zoom (handleWheel deltaY st) = zoom st \<or> (px p = px (pan st) \<and> py p = py (pan st)))"
proof -
  let ?st' = "handleWheel deltaY st"
  have z': "zoom ?st' = max 0.5 (min 5 (zoom st * (if deltaY > 0 then 0.9 else 1.1)))"
    by (simp add: handleWheel_def Let_def)
  have p': "pan ?st' = pan st" by (simp add: handleWheel_def Let_def)
  have pos: "0 < zoom st" using assms by simp
  have pos': "0 < zoom ?st'" unfolding z' by simp
  have sx: "px (toPlane ?st' p) = px (toPlane st p) * (zoom st / zoom ?st')"
    using pos pos' by (simp add: toPlane_def p')
  have sy: "py (toPlane ?st' p) = py (toPlane st p) * (zoom st / zoom ?st')"
    using pos pos' by (simp add: toPlane_def p')
  have eqx: "(px p - px (pan st)) / zoom ?st' = (px p - px (pan st)) / zoom st \<longleftrightarrow>
      zoom ?st' = zoom st \<or> px p = px (pan st)"
    using pos pos' by (auto simp: field_simps)
  have eqy: "(py p - py (pan st)) / zoom ?st' = (py p - py (pan st)) / zoom st \<longleftrightarrow>
      zoom ?st' = zoom st \<or> py p = py (pan st)"
    using pos pos' by (auto simp: field_simps)
  have "toPlane ?st' p = toPlane st p \<longleftrightarrow>
      zoom ?st' = zoom st \<or> (px p = px (pan st) \<and> py p = py (pan st))"
    unfolding toPlane_def p' using eqx eqy by auto
  with z' p' sx sy show ?thesis by blast
qed

theorem wheel_zoom_scales_about_pan_witness:
  "0.5 \<le> zoom initial \<and> zoom initial \<le> 5 \<and>
   zoom (handleWheel 1 initial) = 0.9 \<and> pan (handleWheel 1 initial) = pan initial \<and>
   px (toPlane (handleWheel 1 initial) \<lparr>px = 400, py = 300\<rparr>) = 400 * (1 / 0.9) \<and>
   toPlane (handleWheel 1 initial) \<lparr>px = 0, py = 0\<rparr> = toPlane initial \<lparr>px = 0, py = 0\<rparr>"
  using wheel_zoom_scales_about_pan [of initial 1 "\<lparr>px = 400, py = 300\<rparr>"]
    wheel_zoom_scales_about_pan [of initial 1 "\<lparr>px = 0, py = 0\<rparr>"]
  by (simp add: initial_def toPlane_def handleWheel_def)

text \<open>
  As stated, with the pivot kept fixed wherever the pointer is, the claim fails: from the
  initial state a zoom-out tick at the pivot (400, 300) moves the plane point under the pivot
  from (400, 300) to (400 / 0.9, 300 / 0.9).
\<close>

theorem wheel_zoom_pivot_counterexample:
  "0.5 \<le> zoom initial \<and> zoom initial \<le> 5 \<and>
   toPlane (handleWheel 1 initial) \<lparr>px = 400, py = 300\<rparr> \<noteq> toPlane initial \<lparr>px = 400, py = 300\<rparr>"
  by (simp add: toPlane_def handleWheel_def initial_def)

section \<open>Centering on the search coordinates\<close>

lemma centerOnSearch_zoom: "zoom (centerOnSearch (Some cv) (Some sc) st) = 2"
  by (simp add: centerOnSearch_def Let_def)

lemma centerOnSearch_device:
  "toDevice (centerOnSearch (Some cv) (Some sc) st)
     \<lparr>px = projectX drawn (lng sc), py = projectY drawn (lat sc)\<rparr> =
   \<lparr>px = width cv / 2 + 2 * (projectX drawn (lng sc) - projectX cv (lng sc)),
    py = height cv / 2 + 2 * (projectY drawn (lat sc) - projectY cv (lat sc))\<rparr>"
  by (simp add: centerOnSearch_def toDevice_def Let_def algebra_simps)

text \<open>
  C3. When a search coordinate arrives and the canvas exists, the zoom is set to the fixed
  value 2 (the handler has no target-zoom parameter) and the pan is set so that, provided the
  canvas buffer has the same size when the map is drawn as when the effect read it, the
  projected plane point of the coordinate lands at the centre of the canvas.
\<close>

theorem center_on_search:
  "zoom (centerOnSearch (Some cv) (Some sc) st) = 2 \<and>
   (width drawn = width cv \<and> height drawn = height cv \<longrightarrow>
      toDevice (centerOnSearch (Some cv) (Some sc) st)
        \<lparr>px = projectX drawn (lng sc), py = projectY drawn (lat sc)\<rparr> =
      \<lparr>px = width cv / 2, py = height cv / 2\<rparr>)"
proof (intro conjI impI)
  show "zoom (centerOnSearch (Some cv) (Some sc) st) = 2"
    by (rule centerOnSearch_zoom)
next
  assume same: "width drawn = width cv \<and> height drawn = height cv"
  then have "projectX drawn (lng sc) = projectX cv (lng sc)"
    and "projectY drawn (lat sc) = projectY cv (lat sc)"
    by (simp_all add: projectX_def projectY_def)
  then show "toDevice (centerOnSearch (Some cv) (Some sc) st)
        \<lparr>px = projectX drawn (lng sc), py = projectY drawn (lat sc)\<rparr> =
      \<lparr>px = width cv / 2, py = height cv / 2\<rparr>"
    by (simp add: centerOnSearch_device)
qed

text \<open>
  The scenario of the claim, with the buffer at 800 x 600 both when the effect runs and when
  the map is drawn: from zoom 1 and pan (0, 0), centering on
  \<open>{lat: 37.7749, lng: -122.4194}\<close> puts that point at the device coordinates (400, 300) with
  zoom 2.
\<close>

theorem center_on_search_witness:
  "width (resizeCanvas 800 600 \<lparr>width = 800, height = 600, rect_left = 0, rect_top = 0\<rparr>) =
     width \<lparr>width = 800, height = 600, rect_left = 0, rect_top = 0\<rparr> \<and>
   height (resizeCanvas 800 600 \<lparr>width = 800, height = 600, rect_left = 0, rect_top = 0\<rparr>) =
     height \<lparr>width = 800, height = 600, rect_left = 0, rect_top = 0\<rparr> \<and>
   zoom initial = 1 \<and> pan initial = \<lparr>px = 0, py = 0\<rparr> \<and>
   zoom (centerOnSearch (Some \<lparr>width = 800, height = 600, rect_left = 0, rect_top = 0\<rparr>)
        (Some \<lparr>lat = 37.7749, lng = - 122.4194\<rparr>) initial) = 2 \<and>
   toDevice
     (centerOnSearch (Some \<lparr>width = 800, height = 600, rect_left = 0, rect_top = 0\<rparr>)
        (Some \<lparr>lat = 37.7749, lng = - 122.4194\<rparr>) initial)
     \<lparr>px = projectX
             (resizeCanvas 800 600 \<lparr>width = 800, height = 600, rect_left = 0, rect_top = 0\<rparr>)
             (- 122.4194),
      py = projectY
             (resizeCanvas 800 600 \<lparr>width = 800, height = 600, rect_left = 0, rect_top = 0\<rparr>)
             37.7749\<rparr> =
     \<lparr>px = 400, py = 300\<rparr>"
  using center_on_search
    [of "\<lparr>width = 800, height = 600, rect_left = 0, rect_top = 0\<rparr>"
        "\<lparr>lat = 37.7749, lng = - 122.4194\<rparr>" initial
        "resizeCanvas 800 600 \<lparr>width = 800, height = 600, rect_left = 0, rect_top = 0\<rparr>"]
  by (simp add: resizeCanvas_def initial_def)

text \<open>
  As stated the claim fails in two ways. The zoom after centering is 2, not a requested 5.
  And the point need not land at the centre: when the map mounts with the coordinates already
  set, the effect reads the default 300 x 150 buffer, the draw effect then resizes the buffer
  to the laid-out 800 x 600, and the searched point is drawn away from (400, 300); for
  \<open>{lat: 0, lng: 0}\<close> it is drawn at (650, 525).
\<close>

theorem center_on_search_zoom_counterexample:
  "zoom initial = 1 \<and> pan initial = \<lparr>px = 0, py = 0\<rparr> \<and>
   zoom (centerOnSearch (Some \<lparr>width = 800, height = 600, rect_left = 0, rect_top = 0\<rparr>)
        (Some \<lparr>lat = 37.7749, lng = - 122.4194\<rparr>) initial) \<noteq> 5 \<and>
   toDevice
     (centerOnSearch (Some \<lparr>width = 300, height = 150, rect_left = 0, rect_top = 0\<rparr>)
        (Some \<lparr>lat = 37.7749, lng = - 122.4194\<rparr>) initial)
     \<lparr>px = projectX
             (resizeCanvas 800 600 \<lparr>width = 300, height = 150, rect_left = 0, rect_top = 0\<rparr>)
             (- 122.4194),
      py = projectY
             (resizeCanvas 800 600 \<lparr>width = 300, height = 150, rect_left = 0, rect_top = 0\<rparr>)
             37.7749\<rparr> \<noteq>
     \<lparr>px = 400, py = 300\<rparr> \<and>
   toDevice
     (centerOnSearch (Some \<lparr>width = 300, height = 150, rect_left = 0, rect_top = 0\<rparr>)
        (Some \<lparr>lat = 0, lng = 0\<rparr>) initial)
     \<lparr>px = projectX
             (resizeCanvas 800 600 \<lparr>width = 300, height = 150, rect_left = 0, rect_top = 0\<rparr>) 0,
      py = projectY
             (resizeCanvas 800 600 \<lparr>width = 300, height = 150, rect_left = 0, rect_top = 0\<rparr>) 0\<rparr> =
     \<lparr>px = 650, py = 525\<rparr>"
  by (simp add: centerOnSearch_def toDevice_def projectX_def projectY_def resizeCanvas_def
      Let_def initial_def)

section \<open>The zoom stays clamped\<close>

lemma step_zoom_range:
  "1/2 \<le> zoom st \<Longrightarrow> zoom st \<le> 5 \<Longrightarrow>
   1/2 \<le> zoom (fst (step cv qs st e)) \<and> zoom (fst (step cv qs st e)) \<le> 5"
  by (cases e)
     (auto simp: handleWheel_def centerOnSearch_def handleMouseDown_def handleMouseMove_def
        handleMouseUp_def Let_def split: option.splits)

lemma run_zoom_range:
  "1/2 \<le> zoom st \<Longrightarrow> zoom st \<le> 5 \<Longrightarrow>
   1/2 \<le> zoom (fst (run cv qs st es)) \<and> zoom (fst (run cv qs st es)) \<le> 5"
proof (induction es arbitrary: st)
  case Nil
  then show ?case by simp
next
  case (Cons e es)
  from step_zoom_range [OF Cons.prems]
  have "1/2 \<le> zoom (fst (step cv qs st e))" "zoom (fst (step cv qs st e)) \<le> 5"
    by simp_all
  from Cons.IH [OF this] show ?case by simp
qed

text \<open>
  C4. From the initial state (zoom 1), after any sequence of events (wheel events with any
  \<open>deltaY\<close>, search centerings, and the mouse events as well) the zoom lies in \<open>[0.5, 5]\<close>.
\<close>

theorem zoom_always_clamped:
  "0.5 \<le> zoom (fst (run canvasRef earthquakes initial es)) \<and>
   zoom (fst (run canvasRef earthquakes initial es)) \<le> 5"
proof -
  have "1/2 \<le> zoom initial" "zoom initial \<le> 5" by (simp_all add: initial_def)
  from run_zoom_range [OF this] show ?thesis by simp
qed

section \<open>Dragging\<close>

lemma run_append:
  "fst (run cv qs st (es @ fs)) = fst (run cv qs (fst (run cv qs st es)) fs)"
  by (induction es arbitrary: st) simp_all

lemma run_moves_drag:
  "isDragging (fst (run cv qs st (moves ps))) = isDragging st \<and>
   dragStart (fst (run cv qs st (moves ps))) = dragStart st"
  by (induction ps arbitrary: st) (simp_all add: moves_def handleMouseMove_def)

lemma run_moves_last:
  assumes "isDragging st"
  shows "pan (fst (run cv qs st (moves (ps @ [e])))) =
         \<lparr>px = px e - px (dragStart st), py = py e - py (dragStart st)\<rparr>"
proof -
  let ?mid = "fst (run cv qs st (moves ps))"
  have mid: "isDragging ?mid" "dragStart ?mid = dragStart st"
    using assms run_moves_drag [of cv qs st ps] by simp_all
  have "moves (ps @ [e]) = moves ps @ [MouseMove (px e) (py e)]"
    by (simp add: moves_def)
  then have "fst (run cv qs st (moves (ps @ [e]))) = handleMouseMove (px e) (py e) ?mid"
    by (simp add: run_append)
  with mid show ?thesis by (simp add: handleMouseMove_def)
qed

text \<open>
  C7. A drag that starts with a pointer-down at the device point \<open>(ax, ay)\<close> while the pan is
  \<open>p0\<close>, followed by any pointer moves that end at the device point \<open>e\<close>, leaves the pan at
  \<open>e - a + p0\<close>; so two pointer paths with the same start and the same end give the same pan.
\<close>

theorem drag_absolute_delta:
  "pan (fst (run canvasRef earthquakes st (MouseDown ax ay # moves (ps @ [e])))) =
     \<lparr>px = px e - ax + px (pan st), py = py e - ay + py (pan st)\<rparr> \<and>
   pan (fst (run canvasRef earthquakes st (MouseDown ax ay # moves (ps @ [e])))) =
     pan (fst (run canvasRef earthquakes st (MouseDown ax ay # moves (ps' @ [e]))))"
proof -
  have down: "isDragging (handleMouseDown ax ay st)"
    "dragStart (handleMouseDown ax ay st) = \<lparr>px = ax - px (pan st), py = ay - py (pan st)\<rparr>"
    by (simp_all add: handleMouseDown_def)
  have "pan (fst (run canvasRef earthquakes st (MouseDown ax ay # moves (qs @ [e])))) =
     \<lparr>px = px e - ax + px (pan st), py = py e - ay + py (pan st)\<rparr>" for qs
    using run_moves_last [OF down(1), of canvasRef earthquakes qs e] down(2) by simp
  then show ?thesis by simp
qed

text \<open>
  C5. A click that ends a drag gesture is to be ignored by the selection logic. The handler
  has the guard \<^verbatim>\<open>if (isDragging) return\<close>, but \<^verbatim>\<open>handleMouseUp\<close> has reset the
  flag by the time the click is delivered: after pointer-down at (100, 100), a move to
  (150, 120) (the pan is now (50, 20)), pointer-up and the click at (150, 120), the marker
  under the pointer is reported to \<^verbatim>\<open>onSelectEarthquake\<close>; and after any pointer-down,
  moves and pointer-up the flag is false, so the guard cannot stop the click of a gesture.
\<close>

theorem click_after_drag_selects:
  "snd (run (Some \<lparr>width = 360, height = 180, rect_left = 0, rect_top = 0\<rparr>)
          [\<lparr>quake_id = ''q1'', properties = \<lparr>mag = 5\<rparr>,
            geometry = \<lparr>coordinates = Some [- 80, - 10, 12]\<rparr>\<rparr>]
          initial
          [MouseDown 100 100, MouseMove 150 120, MouseUp, Click 150 120]) =
     [Inr None, Inr None, Inr None,
      Inr (Some \<lparr>quake_id = ''q1'', properties = \<lparr>mag = 5\<rparr>,
            geometry = \<lparr>coordinates = Some [- 80, - 10, 12]\<rparr>\<rparr>)] \<and>
   pan (fst (run (Some \<lparr>width = 360, height = 180, rect_left = 0, rect_top = 0\<rparr>)
          [\<lparr>quake_id = ''q1'', properties = \<lparr>mag = 5\<rparr>,
            geometry = \<lparr>coordinates = Some [- 80, - 10, 12]\<rparr>\<rparr>]
          initial
          [MouseDown 100 100, MouseMove 150 120, MouseUp, Click 150 120])) =
     \<lparr>px = 50, py = 20\<rparr> \<and>
   isDragging (fst (run canvasRef earthquakes st (MouseDown ax ay # moves ps @ [MouseUp]))) = False"
proof -
  have "isDragging (fst (run canvasRef earthquakes st ((MouseDown ax ay # moves ps) @ [MouseUp])))
      = False"
    unfolding run_append by (simp add: handleMouseUp_def)
  then show ?thesis
    by (simp add: initial_def handleMouseDown_def handleMouseMove_def handleMouseUp_def
        handleClick_def toPlane_def hits_def lngLat_def projectX_def projectY_def
        distance_def withinSize_def getMagnitudeSize_def Let_def)
qed

section \<open>Click hit-testing\<close>


lemma sqrt_100: "sqrt 100 = 10"
  using real_sqrt_abs [of 10] by simp

lemma hits_present:
  "coordinates (geometry q) = Some cs \<Longrightarrow>
   hits cv cx cy q =
     Inr (withinSize (distance cx cy (map_option (projectX cv) (entry cs 0))
            (map_option (projectY cv) (entry cs 1)))
          (getMagnitudeSize (mag (properties q))))"
  by (simp add: hits_def lngLat_def Let_def)

lemma hits_absent:
  "coordinates (geometry q) = None \<Longrightarrow> hits cv cx cy q = Inl TypeError"
  by (simp add: hits_def lngLat_def)

lemma hits_cases:
  "hits cv cx cy q = Inl TypeError \<or> hits cv cx cy q = Inr True \<or> hits cv cx cy q = Inr False"
  by (cases "coordinates (geometry q)") (auto simp: hits_absent hits_present)


lemma hits_short:
  "coordinates (geometry q) = Some cs \<Longrightarrow> length cs < 2 \<Longrightarrow> hits cv cx cy q = Inr False"
  by (cases cs; cases "tl cs")
     (auto simp: hits_present distance_def withinSize_def split: option.splits)

lemma hitLoop_Some_split:
  "hitLoop cv cx cy ms = Inr (Some q) \<Longrightarrow>
   \<exists>pre post. ms = pre @ q # post \<and> hits cv cx cy q = Inr True \<and>
     (\<forall>m\<in>set pre. hits cv cx cy m = Inr False)"
proof (induction ms)
  case Nil
  then show ?case by simp
next
  case (Cons m ms)
  from hits_cases [of cv cx cy m] consider
    (err) "hits cv cx cy m = Inl TypeError" | (hit) "hits cv cx cy m = Inr True"
    | (miss) "hits cv cx cy m = Inr False" by blast
  then show ?case
  proof cases
    case err
    with Cons.prems show ?thesis by simp
  next
    case hit
    with Cons.prems have "m = q" by simp
    with hit have "m # ms = [] @ q # ms \<and> hits cv cx cy q = Inr True \<and>
      (\<forall>m\<in>set []. hits cv cx cy m = Inr False)" by simp
    then show ?thesis by blast
  next
    case miss
    with Cons.prems have "hitLoop cv cx cy ms = Inr (Some q)" by simp
    from Cons.IH [OF this] obtain pre post where
      "ms = pre @ q # post" "hits cv cx cy q = Inr True"
      "\<forall>m\<in>set pre. hits cv cx cy m = Inr False" by blast
    with miss have "m # ms = (m # pre) @ q # post \<and> hits cv cx cy q = Inr True \<and>
      (\<forall>m\<in>set (m # pre). hits cv cx cy m = Inr False)" by simp
    then show ?thesis by blast
  qed
qed

lemma hitLoop_skip_misses:
  "\<forall>m\<in>set pre. hits cv cx cy m = Inr False \<Longrightarrow>
   hitLoop cv cx cy (pre @ rest) = hitLoop cv cx cy rest"
  by (induction pre) simp_all

lemma hitLoop_None_misses:
  "hitLoop cv cx cy ms = Inr None \<Longrightarrow> \<forall>m\<in>set ms. hits cv cx cy m = Inr False"
proof (induction ms)
  case Nil
  then show ?case by simp
next
  case (Cons m ms)
  from hits_cases [of cv cx cy m] Cons.prems have miss: "hits cv cx cy m = Inr False"
    by auto
  with Cons.prems have "hitLoop cv cx cy ms = Inr None" by simp
  with Cons.IH miss show ?case by simp
qed

lemma hitLoop_present_no_error:
  "\<forall>q\<in>set ms. coordinates (geometry q) \<noteq> None \<Longrightarrow> \<exists>r. hitLoop cv cx cy ms = Inr r"
proof (induction ms)
  case Nil
  then show ?case by simp
next
  case (Cons m ms)
  then obtain cs where "coordinates (geometry m) = Some cs" by auto
  then have "hits cv cx cy m = Inr True \<or> hits cv cx cy m = Inr False"
    by (auto simp: hits_present)
  with Cons show ?case by auto
qed

lemma hitLoop_Some_append:
  assumes "hitLoop cv cx cy pre = Inr (Some q)"
  shows "hitLoop cv cx cy (pre @ rest) = Inr (Some q)"
proof -
  from hitLoop_Some_split [OF assms] obtain p1 p2 where
    pre: "pre = p1 @ q # p2" and hit: "hits cv cx cy q = Inr True"
    and miss: "\<forall>m\<in>set p1. hits cv cx cy m = Inr False" by blast
  have "hitLoop cv cx cy (pre @ rest) = hitLoop cv cx cy (p1 @ (q # p2 @ rest))"
    by (simp add: pre)
  also have "\<dots> = hitLoop cv cx cy (q # p2 @ rest)"
    using miss by (rule hitLoop_skip_misses)
  also have "\<dots> = Inr (Some q)" using hit by simp
  finally show ?thesis .
qed

lemma handleClick_idle:
  "\<not> isDragging st \<Longrightarrow>
   handleClick (Some cv) ms st clientX clientY =
     hitLoop cv (px (toPlane st \<lparr>px = clientX - rect_left cv, py = clientY - rect_top cv\<rparr>))
       (py (toPlane st \<lparr>px = clientX - rect_left cv, py = clientY - rect_top cv\<rparr>)) ms"
  by (simp add: handleClick_def Let_def)

lemma handleClick_dragging:
  "isDragging st \<Longrightarrow> handleClick canvasRef ms st clientX clientY = Inr None"
  by (simp add: handleClick_def)




section \<open>Markers without coordinates\<close>

lemma drawMarker_present:
  "coordinates (geometry q) \<noteq> None \<Longrightarrow> \<exists>a. drawMarker cv st sel q = Inr a"
  by (auto simp: drawMarker_def lngLat_def split: option.splits)

lemma drawMarker_absent:
  "coordinates (geometry q) = None \<Longrightarrow> drawMarker cv st sel q = Inl TypeError"
  by (simp add: drawMarker_def lngLat_def)

lemma drawMarkers_present:
  "\<forall>q\<in>set ms. coordinates (geometry q) \<noteq> None \<Longrightarrow>
   snd (drawMarkers cv st sel ms) = None \<and> length (fst (drawMarkers cv st sel ms)) = length ms"
proof (induction ms)
  case Nil
  then show ?case by simp
next
  case (Cons m ms)
  then obtain a where "drawMarker cv st sel m = Inr a"
    using drawMarker_present [of m cv st sel] by auto
  with Cons show ?case by simp
qed

lemma drawMarkers_append:
  "\<forall>q\<in>set pre. coordinates (geometry q) \<noteq> None \<Longrightarrow>
   drawMarkers cv st sel (pre @ rest) =
     (fst (drawMarkers cv st sel pre) @ fst (drawMarkers cv st sel rest),
      snd (drawMarkers cv st sel rest))"
proof (induction pre)
  case Nil
  then show ?case by simp
next
  case (Cons m pre)
  then obtain a where "drawMarker cv st sel m = Inr a"
    using drawMarker_present [of m cv st sel] by auto
  with Cons show ?case by simp
qed

lemma drawMarker_short:
  "coordinates (geometry q) = Some cs \<Longrightarrow> length cs < 2 \<Longrightarrow>
   \<exists>a. drawMarker cv st sel q = Inr a \<and> (arc_x a = None \<or> arc_y a = None)"
  by (cases cs; cases "tl cs") (auto simp: drawMarker_def lngLat_def)

lemma handleClick_never_misses:
  assumes "hits cv (px (toPlane st \<lparr>px = clientX - rect_left cv, py = clientY - rect_top cv\<rparr>))
             (py (toPlane st \<lparr>px = clientX - rect_left cv, py = clientY - rect_top cv\<rparr>)) m
           = Inr False"
  shows "handleClick (Some cv) ms st clientX clientY \<noteq> Inr (Some m)"
proof
  assume sel: "handleClick (Some cv) ms st clientX clientY = Inr (Some m)"
  then have "\<not> isDragging st"
    using handleClick_dragging [of st "Some cv" ms clientX clientY] by auto
  with sel have "hitLoop cv (px (toPlane st \<lparr>px = clientX - rect_left cv, py = clientY - rect_top cv\<rparr>))
             (py (toPlane st \<lparr>px = clientX - rect_left cv, py = clientY - rect_top cv\<rparr>)) ms
     = Inr (Some m)"
    by (simp add: handleClick_idle)
  from hitLoop_Some_split [OF this] assms show False by auto
qed

lemma handleClick_Cons_miss:
  assumes "hits cv (px (toPlane st \<lparr>px = clientX - rect_left cv, py = clientY - rect_top cv\<rparr>))
             (py (toPlane st \<lparr>px = clientX - rect_left cv, py = clientY - rect_top cv\<rparr>)) m
           = Inr False"
  shows "handleClick (Some cv) (m # rest) st clientX clientY =
         handleClick (Some cv) rest st clientX clientY"
  using assms by (simp add: handleClick_def Let_def)

text \<open>
  C6. When every marker has a coordinates array, the render pass issues one arc per marker and
  neither pass raises. A marker whose coordinates array is present but has fewer than two
  entries is never selected by a click, its arc is issued with a \<^verbatim>\<open>NaN\<close> centre, and the
  markers after it are still processed in both passes. A marker whose coordinates are absent
  is not skipped: the render pass raises a TypeError at it, after drawing the markers before it
  and without drawing those after it, and a click raises the same error unless a marker before
  it is hit (that marker is then selected).
\<close>

theorem missing_coordinates:
  "((\<forall>q\<in>set ms. coordinates (geometry q) \<noteq> None) \<longrightarrow>
      snd (drawMarkers cv st sel ms) = None \<and>
      length (fst (drawMarkers cv st sel ms)) = length ms \<and>
      (\<exists>r. handleClick (Some cv) ms st clientX clientY = Inr r)) \<and>
   (coordinates (geometry m) = Some cs \<and> length cs < 2 \<longrightarrow>
      handleClick (Some cv) ms st clientX clientY \<noteq> Inr (Some m) \<and>
      handleClick (Some cv) (m # rest) st clientX clientY =
        handleClick (Some cv) rest st clientX clientY \<and>
      (\<exists>a. (arc_x a = None \<or> arc_y a = None) \<and>
         drawMarkers cv st sel (m # rest) =
           (a # fst (drawMarkers cv st sel rest), snd (drawMarkers cv st sel rest)))) \<and>
   ((\<forall>q\<in>set pre. coordinates (geometry q) \<noteq> None) \<and> coordinates (geometry m) = None \<longrightarrow>
      drawMarkers cv st sel (pre @ m # post) = (fst (drawMarkers cv st sel pre), Some TypeError) \<and>
      length (fst (drawMarkers cv st sel pre)) = length pre \<and>
      (\<not> isDragging st \<and> handleClick (Some cv) pre st clientX clientY = Inr None \<longrightarrow>
         handleClick (Some cv) (pre @ m # post) st clientX clientY = Inl TypeError) \<and>
      (handleClick (Some cv) pre st clientX clientY = Inr (Some q) \<longrightarrow>
         handleClick (Some cv) (pre @ m # post) st clientX clientY = Inr (Some q)))"
proof (intro conjI impI)
  let ?cx = "px (toPlane st \<lparr>px = clientX - rect_left cv, py = clientY - rect_top cv\<rparr>)"
  let ?cy = "py (toPlane st \<lparr>px = clientX - rect_left cv, py = clientY - rect_top cv\<rparr>)"
  {
    assume all: "\<forall>q\<in>set ms. coordinates (geometry q) \<noteq> None"
    from drawMarkers_present [OF all] show "snd (drawMarkers cv st sel ms) = None"
      and "length (fst (drawMarkers cv st sel ms)) = length ms" by simp_all
    from hitLoop_present_no_error [OF all, of cv ?cx ?cy]
    show "\<exists>r. handleClick (Some cv) ms st clientX clientY = Inr r"
      by (cases "isDragging st") (simp_all add: handleClick_dragging handleClick_idle)
  }
  {
    assume short: "coordinates (geometry m) = Some cs \<and> length cs < 2"
    then have miss: "hits cv ?cx ?cy m = Inr False" by (simp add: hits_short)
    from miss show "handleClick (Some cv) ms st clientX clientY \<noteq> Inr (Some m)"
      by (rule handleClick_never_misses)
    from miss show "handleClick (Some cv) (m # rest) st clientX clientY =
        handleClick (Some cv) rest st clientX clientY"
      by (rule handleClick_Cons_miss)
    from short drawMarker_short [of m cs cv st sel] obtain a where
      "drawMarker cv st sel m = Inr a" "arc_x a = None \<or> arc_y a = None" by auto
    then have "(arc_x a = None \<or> arc_y a = None) \<and>
         drawMarkers cv st sel (m # rest) =
           (a # fst (drawMarkers cv st sel rest), snd (drawMarkers cv st sel rest))"
      by simp
    then show "\<exists>a. (arc_x a = None \<or> arc_y a = None) \<and>
         drawMarkers cv st sel (m # rest) =
           (a # fst (drawMarkers cv st sel rest), snd (drawMarkers cv st sel rest))"
      by blast
  }
  {
    assume a: "(\<forall>q\<in>set pre. coordinates (geometry q) \<noteq> None) \<and> coordinates (geometry m) = None"
    then have all: "\<forall>q\<in>set pre. coordinates (geometry q) \<noteq> None"
      and absent: "coordinates (geometry m) = None" by simp_all
    from drawMarkers_append [OF all, of cv st sel "m # post"] drawMarker_absent [OF absent]
    show "drawMarkers cv st sel (pre @ m # post) = (fst (drawMarkers cv st sel pre), Some TypeError)"
      by simp
    from drawMarkers_present [OF all]
    show "length (fst (drawMarkers cv st sel pre)) = length pre" by simp
    {
      assume b: "\<not> isDragging st \<and> handleClick (Some cv) pre st clientX clientY = Inr None"
      then have idle: "\<not> isDragging st"
        and none: "handleClick (Some cv) pre st clientX clientY = Inr None" by simp_all
      from none have "hitLoop cv ?cx ?cy pre = Inr None"
        by (simp add: handleClick_idle [OF idle])
      from hitLoop_None_misses [OF this]
      have "hitLoop cv ?cx ?cy (pre @ m # post) = hitLoop cv ?cx ?cy (m # post)"
        by (rule hitLoop_skip_misses)
      with hits_absent [OF absent] show
        "handleClick (Some cv) (pre @ m # post) st clientX clientY = Inl TypeError"
        by (simp add: handleClick_idle [OF idle])
    }
    {
      assume sel: "handleClick (Some cv) pre st clientX clientY = Inr (Some q)"
      then have idle: "\<not> isDragging st"
        using handleClick_dragging [of st "Some cv" pre clientX clientY] by auto
      with sel have "hitLoop cv ?cx ?cy pre = Inr (Some q)" by (simp add: handleClick_idle)
      from hitLoop_Some_append [OF this] idle
      show "handleClick (Some cv) (pre @ m # post) st clientX clientY = Inr (Some q)"
        by (simp add: handleClick_idle)
    }
  }
qed

theorem missing_coordinates_witness:
  "coordinates (geometry \<lparr>quake_id = ''a'', properties = \<lparr>mag = 2\<rparr>,
      geometry = \<lparr>coordinates = Some [0, 0, 10]\<rparr>\<rparr>) = Some [0, 0, 10] \<and>
   snd (drawMarkers \<lparr>width = 360, height = 180, rect_left = 0, rect_top = 0\<rparr> initial None
     [\<lparr>quake_id = ''a'', properties = \<lparr>mag = 2\<rparr>,
       geometry = \<lparr>coordinates = Some [0, 0, 10]\<rparr>\<rparr>]) = None \<and>
   coordinates (geometry \<lparr>quake_id = ''s'', properties = \<lparr>mag = 2\<rparr>,
      geometry = \<lparr>coordinates = Some [5]\<rparr>\<rparr>) = Some [5] \<and>
   length [5 :: real] < 2 \<and>
   handleClick (Some \<lparr>width = 360, height = 180, rect_left = 0, rect_top = 0\<rparr>)
     (\<lparr>quake_id = ''s'', properties = \<lparr>mag = 2\<rparr>, geometry = \<lparr>coordinates = Some [5]\<rparr>\<rparr>
      # [\<lparr>quake_id = ''a'', properties = \<lparr>mag = 2\<rparr>,
           geometry = \<lparr>coordinates = Some [0, 0, 10]\<rparr>\<rparr>])
     initial 180 90 =
     Inr (Some \<lparr>quake_id = ''a'', properties = \<lparr>mag = 2\<rparr>,
                geometry = \<lparr>coordinates = Some [0, 0, 10]\<rparr>\<rparr>) \<and>
   coordinates (geometry \<lparr>quake_id = ''m'', properties = \<lparr>mag = 2\<rparr>,
      geometry = \<lparr>coordinates = None\<rparr>\<rparr>) = None \<and>
   \<not> isDragging initial \<and>
   handleClick (Some \<lparr>width = 360, height = 180, rect_left = 0, rect_top = 0\<rparr>)
     [\<lparr>quake_id = ''a'', properties = \<lparr>mag = 2\<rparr>, geometry = \<lparr>coordinates = Some [0, 0, 10]\<rparr>\<rparr>]
     initial 170 90 = Inr None \<and>
   handleClick (Some \<lparr>width = 360, height = 180, rect_left = 0, rect_top = 0\<rparr>)
     ([\<lparr>quake_id = ''a'', properties = \<lparr>mag = 2\<rparr>, geometry = \<lparr>coordinates = Some [0, 0, 10]\<rparr>\<rparr>]
      @ \<lparr>quake_id = ''m'', properties = \<lparr>mag = 2\<rparr>, geometry = \<lparr>coordinates = None\<rparr>\<rparr>
      # [\<lparr>quake_id = ''b'', properties = \<lparr>mag = 2\<rparr>,
           geometry = \<lparr>coordinates = Some [0, 0, 10]\<rparr>\<rparr>])
     initial 170 90 = Inl TypeError \<and>
   handleClick (Some \<lparr>width = 360, height = 180, rect_left = 0, rect_top = 0\<rparr>)
     [\<lparr>quake_id = ''a'', properties = \<lparr>mag = 2\<rparr>, geometry = \<lparr>coordinates = Some [0, 0, 10]\<rparr>\<rparr>]
     initial 180 90 =
     Inr (Some \<lparr>quake_id = ''a'', properties = \<lparr>mag = 2\<rparr>,
                geometry = \<lparr>coordinates = Some [0, 0, 10]\<rparr>\<rparr>) \<and>
   handleClick (Some \<lparr>width = 360, height = 180, rect_left = 0, rect_top = 0\<rparr>)
     ([\<lparr>quake_id = ''a'', properties = \<lparr>mag = 2\<rparr>, geometry = \<lparr>coordinates = Some [0, 0, 10]\<rparr>\<rparr>]
      @ \<lparr>quake_id = ''m'', properties = \<lparr>mag = 2\<rparr>, geometry = \<lparr>coordinates = None\<rparr>\<rparr>
      # [\<lparr>quake_id = ''b'', properties = \<lparr>mag = 2\<rparr>,
           geometry = \<lparr>coordinates = Some [0, 0, 10]\<rparr>\<rparr>])
     initial 180 90 =
     Inr (Some \<lparr>quake_id = ''a'', properties = \<lparr>mag = 2\<rparr>,
                geometry = \<lparr>coordinates = Some [0, 0, 10]\<rparr>\<rparr>) \<and>
   drawMarkers \<lparr>width = 360, height = 180, rect_left = 0, rect_top = 0\<rparr> initial None
     ([\<lparr>quake_id = ''a'', properties = \<lparr>mag = 2\<rparr>, geometry = \<lparr>coordinates = Some [0, 0, 10]\<rparr>\<rparr>]
      @ \<lparr>quake_id = ''m'', properties = \<lparr>mag = 2\<rparr>, geometry = \<lparr>coordinates = None\<rparr>\<rparr>
      # [\<lparr>quake_id = ''b'', properties = \<lparr>mag = 2\<rparr>,
           geometry = \<lparr>coordinates = Some [0, 0, 10]\<rparr>\<rparr>]) =
     (fst (drawMarkers \<lparr>width = 360, height = 180, rect_left = 0, rect_top = 0\<rparr> initial None
        [\<lparr>quake_id = ''a'', properties = \<lparr>mag = 2\<rparr>,
          geometry = \<lparr>coordinates = Some [0, 0, 10]\<rparr>\<rparr>]), Some TypeError)"
proof -
  let ?cv = "\<lparr>width = 360, height = 180, rect_left = 0, rect_top = 0\<rparr>"
  let ?a = "\<lparr>quake_id = ''a'', properties = \<lparr>mag = 2\<rparr>,
      geometry = \<lparr>coordinates = Some [0, 0, 10]\<rparr>\<rparr>"
  let ?b = "\<lparr>quake_id = ''b'', properties = \<lparr>mag = 2\<rparr>,
      geometry = \<lparr>coordinates = Some [0, 0, 10]\<rparr>\<rparr>"
  let ?s = "\<lparr>quake_id = ''s'', properties = \<lparr>mag = 2\<rparr>, geometry = \<lparr>coordinates = Some [5]\<rparr>\<rparr>"
  let ?m = "\<lparr>quake_id = ''m'', properties = \<lparr>mag = 2\<rparr>, geometry = \<lparr>coordinates = None\<rparr>\<rparr>"
  have on_a: "handleClick (Some ?cv) [?a] initial 180 90 = Inr (Some ?a)"
    and off_a: "handleClick (Some ?cv) [?a] initial 170 90 = Inr None"
    and idle: "\<not> isDragging initial"
    by (simp_all add: handleClick_def initial_def toPlane_def hits_def lngLat_def projectX_def
        projectY_def distance_def withinSize_def getMagnitudeSize_def Let_def sqrt_100)
  have present: "snd (drawMarkers ?cv initial None [?a]) = None"
    using missing_coordinates [where ms = "[?a]" and cv = ?cv and st = initial and sel = None,
        THEN conjunct1]
    by simp
  have short: "handleClick (Some ?cv) (?s # [?a]) initial 180 90 = Inr (Some ?a)"
    using missing_coordinates [where m = ?s and cs = "[5]" and rest = "[?a]" and cv = ?cv
        and st = initial and clientX = 180 and clientY = 90, THEN conjunct2, THEN conjunct1]
      on_a
    by simp
  have raised: "handleClick (Some ?cv) ([?a] @ ?m # [?b]) initial 170 90 = Inl TypeError"
    using missing_coordinates [where pre = "[?a]" and m = ?m and post = "[?b]"
        and cv = ?cv and st = initial and sel = None and clientX = 170 and clientY = 90,
        THEN conjunct2, THEN conjunct2] off_a idle
    by simp
  have kept: "handleClick (Some ?cv) ([?a] @ ?m # [?b]) initial 180 90 = Inr (Some ?a)"
    using missing_coordinates [where pre = "[?a]" and m = ?m and post = "[?b]"
        and cv = ?cv and st = initial and sel = None and clientX = 180 and clientY = 90 and q = ?a,
        THEN conjunct2, THEN conjunct2] on_a
    by simp
  have cut: "drawMarkers ?cv initial None ([?a] @ ?m # [?b]) =
     (fst (drawMarkers ?cv initial None [?a]), Some TypeError)"
    using missing_coordinates [where pre = "[?a]" and m = ?m and post = "[?b]"
        and cv = ?cv and st = initial and sel = None and clientX = 180 and clientY = 90,
        THEN conjunct2, THEN conjunct2]
    by simp
  from on_a off_a idle present short raised kept cut show ?thesis by simp
qed

text \<open>
  As stated the claim fails: with a marker without coordinates first in the list, the click
  on the second marker raises instead of selecting it, and the render pass draws nothing,
  where the second marker alone would be selected and drawn.
\<close>

theorem missing_coordinates_counterexample:
  "coordinates (geometry \<lparr>quake_id = ''m'', properties = \<lparr>mag = 2\<rparr>,
      geometry = \<lparr>coordinates = None\<rparr>\<rparr>) = None \<and>
   handleClick (Some \<lparr>width = 360, height = 180, rect_left = 0, rect_top = 0\<rparr>)
     [\<lparr>quake_id = ''m'', properties = \<lparr>mag = 2\<rparr>, geometry = \<lparr>coordinates = None\<rparr>\<rparr>,
      \<lparr>quake_id = ''a'', properties = \<lparr>mag = 2\<rparr>, geometry = \<lparr>coordinates = Some [0, 0, 10]\<rparr>\<rparr>]
     initial 180 90 = Inl TypeError \<and>
   handleClick (Some \<lparr>width = 360, height = 180, rect_left = 0, rect_top = 0\<rparr>)
     [\<lparr>quake_id = ''a'', properties = \<lparr>mag = 2\<rparr>, geometry = \<lparr>coordinates = Some [0, 0, 10]\<rparr>\<rparr>]
     initial 180 90 =
     Inr (Some \<lparr>quake_id = ''a'', properties = \<lparr>mag = 2\<rparr>,
                geometry = \<lparr>coordinates = Some [0, 0, 10]\<rparr>\<rparr>) \<and>
   drawMarkers \<lparr>width = 360, height = 180, rect_left = 0, rect_top = 0\<rparr> initial None
     [\<lparr>quake_id = ''m'', properties = \<lparr>mag = 2\<rparr>, geometry = \<lparr>coordinates = None\<rparr>\<rparr>,
      \<lparr>quake_id = ''a'', properties = \<lparr>mag = 2\<rparr>, geometry = \<lparr>coordinates = Some [0, 0, 10]\<rparr>\<rparr>]
     = ([], Some TypeError) \<and>
   drawMarkers \<lparr>width = 360, height = 180, rect_left = 0, rect_top = 0\<rparr> initial None
     [\<lparr>quake_id = ''a'', properties = \<lparr>mag = 2\<rparr>, geometry = \<lparr>coordinates = Some [0, 0, 10]\<rparr>\<rparr>]
     = ([\<lparr>arc_x = Some 180, arc_y = Some 90, arc_radius = 8, fillStyle = ''#22c55e'',
          globalAlpha = 0.7, stroked = False\<rparr>], None)"
  by (simp add: handleClick_def initial_def toPlane_def hits_def lngLat_def projectX_def
      projectY_def distance_def withinSize_def getMagnitudeSize_def getMagnitudeColor_def
      drawMarker_def isSelected_def Let_def)

end
